theory Spec2Isabelle
  imports Complex_Main "HOL-Library.Sublist" "HOL-Library.List_Lexorder" "HOL-Library.Char_ord"
begin

section \<open>Response envelope\<close>

text \<open>
  Every handler of \<^verbatim>\<open>lambda_function.py\<close> answers through \<^verbatim>\<open>cors_response(status_code, body)\<close>,
  where the body is a dictionary with an optional \<^verbatim>\<open>result\<close> and a list \<^verbatim>\<open>messages\<close> of
  \<^verbatim>\<open>{'text': ..., 'type': ...}\<close> entries. The payload type is a parameter: each handler has
  its own.
\<close>

datatype message = Message (msg_text: string) (msg_type: int)

datatype 'a response =
  Response (statusCode: int) (result: "'a option") (messages: "message list")

definition cors_response :: "int \<Rightarrow> 'a option \<Rightarrow> message list \<Rightarrow> 'a response" where
  "cors_response status_code res msgs = Response status_code res msgs"

section \<open>Remote store client\<close>

text \<open>
  The boto3 client is an external collaborator. Its calls are recorded in a trace, so that
  "no remote lookup happened" is a statement about the trace. A call that raises is modelled
  by \<open>Inl\<close> of the exception's text (or \<open>False\<close> for \<^verbatim>\<open>head_object\<close>, whose exception the
  handler swallows with a bare \<^verbatim>\<open>except\<close>).
\<close>

datatype s3_call =
  DownloadFile string string string
| HeadObject string string
| GeneratePresignedUrl string string nat

record s3_client =
  download_file :: "string \<Rightarrow> string \<Rightarrow> string \<Rightarrow> string + unit"
  head_object :: "string \<Rightarrow> string \<Rightarrow> bool"
  generate_presigned_url :: "string \<Rightarrow> string \<Rightarrow> nat \<Rightarrow> string + string"

record config =
  S3_BUCKET :: string
  S3_PREFIX :: string

section \<open>Snapshot cache\<close>

text \<open>
  \<^verbatim>\<open>get_local_parquet\<close> reads and writes the module-level dictionary \<^verbatim>\<open>file_cache\<close>, tests
  \<^verbatim>\<open>os.path.exists\<close> and calls \<^verbatim>\<open>s3_client.download_file\<close>. The state it touches is passed
  explicitly: the dictionary, the set of local paths that exist, and the trace of remote
  calls. The client is an argument of each call, since the remote store may answer
  differently from one call to the next. A download that raises leaves no file at the local
  path (boto3 writes to a temporary name and renames on completion); the \<^verbatim>\<open>raise\<close> of the
  handler is the \<open>Inl\<close> result.
\<close>

record cache_state =
  file_cache :: "string \<rightharpoonup> string"
  files :: "string set"
  s3_calls :: "s3_call list"

definition get_local_parquet ::
  "config \<Rightarrow> s3_client \<Rightarrow> string \<Rightarrow> cache_state \<Rightarrow> (string + string) \<times> cache_state" where
  "get_local_parquet cfg s3 table_name st =
     (let s3_key = S3_PREFIX cfg @ ''/ghg.'' @ table_name @ ''.parquet'';
          local_path = ''/tmp/ghg.'' @ table_name @ ''.parquet''
      in case file_cache st table_name of
           Some p \<Rightarrow> (Inr p, st)
         | None \<Rightarrow>
             if local_path \<in> files st
             then (Inr local_path,
                   st\<lparr>file_cache := (file_cache st)(table_name \<mapsto> local_path)\<rparr>)
             else (case download_file s3 (S3_BUCKET cfg) s3_key local_path of
                     Inr _ \<Rightarrow>
                       (Inr local_path,
                        st\<lparr>file_cache := (file_cache st)(table_name \<mapsto> local_path),
                           files := insert local_path (files st),
                           s3_calls := s3_calls st @
                             [DownloadFile (S3_BUCKET cfg) s3_key local_path]\<rparr>)
                   | Inl e \<Rightarrow>
                       (Inl (''Failed to download '' @ s3_key @ '': '' @ e),
                        st\<lparr>s3_calls := s3_calls st @
                             [DownloadFile (S3_BUCKET cfg) s3_key local_path]\<rparr>)))"

text \<open>Any further calls, for any table names and against any behaviour of the remote store.\<close>

definition later_calls ::
  "config \<Rightarrow> (s3_client \<times> string) list \<Rightarrow> cache_state \<Rightarrow> cache_state" where
  "later_calls cfg calls st = fold (\<lambda>(s3, m) s. snd (get_local_parquet cfg s3 m s)) calls st"

text \<open>Concrete values for instantiating the theorems below.\<close>

definition cfg0 :: config where
  "cfg0 = \<lparr>S3_BUCKET = ''epa-backups-eia'', S3_PREFIX = ''epa_ghg_tables_parquet''\<rparr>"

definition s3_up :: s3_client where
  "s3_up = \<lparr>download_file = (\<lambda>_ _ _. Inr ()), head_object = (\<lambda>_ _. True),
            generate_presigned_url = (\<lambda>_ _ _. Inr ''https://signed'')\<rparr>"

definition s3_down :: s3_client where
  "s3_down = \<lparr>download_file = (\<lambda>_ _ _. Inl ''timeout''), head_object = (\<lambda>_ _. False),
              generate_presigned_url = (\<lambda>_ _ _. Inl ''timeout'')\<rparr>"

definition cold :: cache_state where
  "cold = \<lparr>file_cache = Map.empty, files = {}, s3_calls = []\<rparr>"

section \<open>Python string tests\<close>

definition endswith :: "string \<Rightarrow> string \<Rightarrow> bool" where
  "endswith s suf = suffix suf s"

definition str_contains :: "string \<Rightarrow> string \<Rightarrow> bool" where
  \<comment> \<open>\<^verbatim>\<open>sub in s\<close>\<close>
  "str_contains sub s = sublist sub s"

section \<open>Data file download\<close>

datatype download_info = DownloadInfo (url: string) (filename: string)

definition handle_data_download ::
  "config \<Rightarrow> s3_client \<Rightarrow> string \<Rightarrow> download_info response \<times> s3_call list" where
  "handle_data_download cfg s3 fname =
     (if \<not> endswith fname ''.csv'' \<or> str_contains ''/'' fname \<or> str_contains ''..'' fname
      then (cors_response 400 None [Message ''Invalid filename'' 400], [])
      else
        let s3_key = ''epa_ghg_tables_csvs/'' @ fname;
            head = HeadObject (S3_BUCKET cfg) s3_key;
            sign = GeneratePresignedUrl (S3_BUCKET cfg) s3_key 3600
        in if \<not> head_object s3 (S3_BUCKET cfg) s3_key
           then (cors_response 404 None [Message ''File not found'' 404], [head])
           else (case generate_presigned_url s3 (S3_BUCKET cfg) s3_key 3600 of
                   Inl e \<Rightarrow> (cors_response 500 None [Message e 500], [head, sign])
                 | Inr presigned_url \<Rightarrow>
                     (cors_response 200 (Some (DownloadInfo presigned_url fname)) [],
                      [head, sign])))"

section \<open>Unit conversion\<close>

text \<open>
  Python's \<^verbatim>\<open>round(x)\<close> on a float rounds to the nearest integer, ties to the even one.
  The DOUBLE values of the engine and Python's floats are modelled by real numbers: division
  by \<^verbatim>\<open>MMT_DIVISOR\<close> is exact here, where IEEE division rounds to the nearest double.
\<close>

definition py_round :: "real \<Rightarrow> int" where
  "py_round x =
     (let f = \<lfloor>x\<rfloor>; d = x - of_int f
      in if d < 1 / 2 then f
         else if 1 / 2 < d then f + 1
         else if even f then f else f + 1)"

definition MMT_DIVISOR :: real where
  "MMT_DIVISOR = 1000000"

definition to_mmt :: "real \<Rightarrow> int" where
  \<comment> \<open>\<^verbatim>\<open>round(float(x) / MMT_DIVISOR)\<close>\<close>
  "to_mmt x = py_round (x / MMT_DIVISOR)"

definition mmt_or_zero :: "real option \<Rightarrow> int" where
  \<comment> \<open>\<^verbatim>\<open>round(float(row[1]) / MMT_DIVISOR) if row[1] else 0\<close>: NULL and 0.0 are falsy\<close>
  "mmt_or_zero v = (case v of None \<Rightarrow> 0 | Some x \<Rightarrow> if x = 0 then 0 else to_mmt x)"

section \<open>Snapshot tables\<close>

text \<open>
  The four Parquet datasets the handlers read. The schema is not part of the repository; it
  is taken from the way the queries use the columns. A column that a query compares with a
  string literal is text; a measure column that is only ever read through
  \<^verbatim>\<open>CAST(... AS DOUBLE)\<close> or \<^verbatim>\<open>CAST(... AS INTEGER)\<close> holds the value of that cast. SQL
  NULL is \<open>None\<close>.
\<close>

record facility_row =
  f_facility_id :: "string option"
  f_year :: "string option"
  f_facility_name :: "string option"
  f_address1 :: "string option"
  f_address2 :: "string option"
  f_city :: "string option"
  f_state :: "string option"
  f_county :: "string option"
  f_zip :: "string option"
  f_latitude :: "string option"
  f_longitude :: "string option"
  f_parent_company :: "string option"

record sector_row =
  s_facility_id :: "string option"
  s_year :: "string option"
  s_sector_name :: "string option"
  s_sector_type :: "string option"
  s_gas_name :: "string option"
  s_co2e_emission :: "real option"

record dim_sector_row =
  d_sector_name :: "string option"
  d_sector_id :: "int option"

record agg_row =
  a_pgm_sys_id :: "string option"
  a_year :: "string option"
  a_total_emission :: "real option"

record db =
  facilities :: "facility_row list"
  sector :: "sector_row list"
  dim_sector :: "dim_sector_row list"
  fac_year_agg :: "agg_row list"

section \<open>Relational operators of the engine\<close>

text \<open>
  The queries are executed by DuckDB. Their meaning is written with the operators below, in
  the logical order of SQL: FROM and JOIN, WHERE, GROUP BY with the aggregates, HAVING,
  ORDER BY, LIMIT and OFFSET. A comparison with a NULL operand is not true, so the row is
  dropped by WHERE and does not match in ON.
\<close>

definition sql_eq :: "'a option \<Rightarrow> 'a option \<Rightarrow> bool" where
  "sql_eq a b = (case (a, b) of (Some x, Some y) \<Rightarrow> x = y | _ \<Rightarrow> False)"

definition sql_ne :: "'a option \<Rightarrow> 'a option \<Rightarrow> bool" where
  "sql_ne a b = (case (a, b) of (Some x, Some y) \<Rightarrow> x \<noteq> y | _ \<Rightarrow> False)"

definition inner_join :: "('l \<Rightarrow> 'r \<Rightarrow> bool) \<Rightarrow> 'l list \<Rightarrow> 'r list \<Rightarrow> ('l \<times> 'r) list" where
  "inner_join on ls rs = concat (map (\<lambda>l. map (Pair l) (filter (on l) rs)) ls)"

definition left_join ::
  "('l \<Rightarrow> 'r \<Rightarrow> bool) \<Rightarrow> 'l list \<Rightarrow> 'r list \<Rightarrow> ('l \<times> 'r option) list" where
  "left_join on ls rs =
     concat (map (\<lambda>l. if filter (on l) rs = [] then [(l, None)]
                       else map (\<lambda>r. (l, Some r)) (filter (on l) rs)) ls)"

definition group_by :: "('r \<Rightarrow> 'k) \<Rightarrow> 'r list \<Rightarrow> ('k \<times> 'r list) list" where
  "group_by key rows =
     map (\<lambda>k. (k, filter (\<lambda>r. key r = k) rows)) (remdups (map key rows))"

definition non_null :: "'a option list \<Rightarrow> 'a list" where
  "non_null vs = concat (map (\<lambda>v. case v of None \<Rightarrow> [] | Some x \<Rightarrow> [x]) vs)"

definition sql_sum :: "real option list \<Rightarrow> real option" where
  \<comment> \<open>SUM skips NULL and is NULL when nothing is left\<close>
  "sql_sum vs = (if non_null vs = [] then None else Some (sum_list (non_null vs)))"



definition coalesce :: "'a option \<Rightarrow> 'a \<Rightarrow> 'a" where
  "coalesce v d = (case v of None \<Rightarrow> d | Some x \<Rightarrow> x)"

text \<open>
  ORDER BY is an insertion sort by a comparison \<open>le a b\<close>, read "a may stand before b". The
  engine promises no order among rows that compare equal; the model keeps them in input
  order. DuckDB puts NULL last, for ASC and for DESC.
\<close>

fun insort_by :: "('a \<Rightarrow> 'a \<Rightarrow> bool) \<Rightarrow> 'a \<Rightarrow> 'a list \<Rightarrow> 'a list" where
  "insort_by le x [] = [x]"
| "insort_by le x (y # ys) = (if le x y then x # y # ys else y # insort_by le x ys)"

definition order_by :: "('a \<Rightarrow> 'a \<Rightarrow> bool) \<Rightarrow> 'a list \<Rightarrow> 'a list" where
  "order_by le rows = foldr (insort_by le) rows []"

definition desc_nulls_last :: "('a :: linorder) option \<Rightarrow> 'a option \<Rightarrow> bool" where
  "desc_nulls_last a b =
     (case (a, b) of (_, None) \<Rightarrow> True | (None, Some _) \<Rightarrow> False | (Some x, Some y) \<Rightarrow> y \<le> x)"



section \<open>Request parameters\<close>

text \<open>
  The JSON body after \<^verbatim>\<open>json.loads\<close>. A field holds the text its value is interpolated as
  into the query (\<open>None\<close> when the key is absent); \<^verbatim>\<open>pageNumber\<close> holds a JSON integer.
  \<^verbatim>\<open>body.get('state', 'US')\<close> and the test \<^verbatim>\<open>if state and state != 'US'\<close> decide whether a
  state filter is applied: the empty text is falsy.
\<close>

record body =
  reportingYear :: "string option"
  state :: "string option"
  dataSource :: "string option"
  sector1 :: "string option"
  pageNumber :: "int option"

definition get_or :: "'a option \<Rightarrow> 'a \<Rightarrow> 'a" where
  \<comment> \<open>\<^verbatim>\<open>body.get(key, default)\<close>\<close>
  "get_or v d = (case v of None \<Rightarrow> d | Some x \<Rightarrow> x)"

definition state_filtering :: "string \<Rightarrow> bool" where
  \<comment> \<open>\<^verbatim>\<open>state and state != 'US'\<close>\<close>
  "state_filtering st \<longleftrightarrow> st \<noteq> [] \<and> st \<noteq> ''US''"

definition Biogenic :: string where
  "Biogenic = ''Biogenic CO2''"

section \<open>Conversions that can fail\<close>

text \<open>
  \<^verbatim>\<open>CAST(text AS DOUBLE)\<close> in the engine and \<^verbatim>\<open>int(...)\<close>, \<^verbatim>\<open>float(...)\<close> in Python raise on
  text that is not a number, and the engine rejects a negative OFFSET. These are functions of
  the collaborators, taken as parameters; \<open>Inl\<close> carries the text of the exception, which the
  handlers put into their 500 response.
\<close>

record engine =
  cast_double :: "string \<Rightarrow> string + real"
  negative_offset :: "int \<Rightarrow> string"
  py_int :: "string \<Rightarrow> string + int"
  py_float :: "string \<Rightarrow> string + real"

definition cast_opt :: "(string \<Rightarrow> string + 'a) \<Rightarrow> string option \<Rightarrow> string + 'a option" where
  \<comment> \<open>a cast of NULL is NULL\<close>
  "cast_opt cast v =
     (case v of None \<Rightarrow> Inr None
      | Some s \<Rightarrow> (case cast s of Inl e \<Rightarrow> Inl e | Inr x \<Rightarrow> Inr (Some x)))"

fun collect :: "('e + 'a) list \<Rightarrow> 'e + 'a list" where
  "collect [] = Inr []"
| "collect (Inl e # _) = Inl e"
| "collect (Inr x # rest) = (case collect rest of Inl e \<Rightarrow> Inl e | Inr xs \<Rightarrow> Inr (x # xs))"

section \<open>Queries over the sector fact table\<close>

text \<open>
  \<^verbatim>\<open>handle_sectors_total_emissions\<close>, \<^verbatim>\<open>handle_list_sectors\<close>, \<^verbatim>\<open>handle_bar_sector\<close> and
  \<^verbatim>\<open>handle_pie_sectors_emissions\<close> read the sector table \<open>e\<close>, left-joined with the sector
  dimension \<open>d\<close> on the sector name and, when a state filter applies, inner-joined with the
  facility table \<open>f\<close> on facility id and year. A joined row is a triple; the facility
  component is \<open>None\<close> when the facility table is not part of the query.
\<close>

type_synonym sector_join = "sector_row \<times> dim_sector_row option \<times> facility_row option"


definition state_join :: "db \<Rightarrow> string \<Rightarrow> (sector_row \<times> 'd) list \<Rightarrow> (sector_row \<times> 'd \<times> facility_row option) list" where
  "state_join t st rows =
     (if state_filtering st
      then map (\<lambda>((e, d), f). (e, d, Some f))
             (inner_join (\<lambda>(e, d) f. sql_eq (s_facility_id e) (f_facility_id f)
                                      \<and> sql_eq (s_year e) (f_year f)) rows (facilities t))
      else map (\<lambda>(e, d). (e, d, None)) rows)"









text \<open>
  \<^verbatim>\<open>handle_sector_trend\<close> first resolves the sector id of the path to a sector name (a
  failing \<^verbatim>\<open>int(sector_id)\<close> or an unknown id leaves the name unset), then sums per year over
  all years, with no join of the dimension table.
\<close>

definition resolve_sector_name :: "engine \<Rightarrow> db \<Rightarrow> string \<Rightarrow> string option" where
  "resolve_sector_name eng t sector_id =
     (if sector_id \<noteq> [] \<and> sector_id \<noteq> ''0''
      then (case py_int eng sector_id of
              Inl _ \<Rightarrow> None
            | Inr sector_id_int \<Rightarrow>
                (case filter (\<lambda>d. sql_eq (d_sector_id d) (Some sector_id_int)) (dim_sector t) of
                   [] \<Rightarrow> None
                 | d # _ \<Rightarrow> d_sector_name d))
      else None)"


section \<open>Queries over the facility table\<close>

definition facility_state_filter :: "string \<Rightarrow> facility_row \<Rightarrow> bool" where
  \<comment> \<open>\<^verbatim>\<open>if state and state != 'US': query += " AND f.state = '{state}'"\<close>\<close>
  "facility_state_filter st f = (if state_filtering st then sql_eq (f_state f) (Some st) else True)"

definition has_coordinates :: "facility_row \<Rightarrow> bool" where
  \<comment> \<open>latitude and longitude IS NOT NULL and \<^verbatim>\<open>!= ''\<close>\<close>
  "has_coordinates f \<longleftrightarrow>
     f_latitude f \<noteq> None \<and> f_longitude f \<noteq> None
     \<and> sql_ne (f_latitude f) (Some []) \<and> sql_ne (f_longitude f) (Some [])"

definition cast_coordinates ::
  "engine \<Rightarrow> ('a \<times> string option \<times> string option \<times> 'b) list
   \<Rightarrow> string + ('a \<times> real option \<times> real option \<times> 'b) list" where
  \<comment> \<open>the two \<^verbatim>\<open>CAST(... AS DOUBLE)\<close> of a select list, row by row\<close>
  "cast_coordinates eng rows =
     collect (map (\<lambda>(i, lat, lon, x).
        (case cast_opt (cast_double eng) lat of
           Inl e \<Rightarrow> Inl e
         | Inr la \<Rightarrow> (case cast_opt (cast_double eng) lon of
                       Inl e \<Rightarrow> Inl e
                     | Inr lo \<Rightarrow> Inr (i, la, lo, x)))) rows)"

definition map_markers_query ::
  "engine \<Rightarrow> db \<Rightarrow> string \<Rightarrow> string
   \<Rightarrow> string + (string option \<times> real option \<times> real option \<times> unit) list" where
  "map_markers_query eng t reporting_year st =
     (let rows = filter (\<lambda>f. sql_eq (f_year f) (Some reporting_year) \<and> has_coordinates f
                             \<and> facility_state_filter st f) (facilities t)
      in case cast_coordinates eng
                (map (\<lambda>f. (f_facility_id f, f_latitude f, f_longitude f, ())) rows) of
           Inl e \<Rightarrow> Inl e
         | Inr selected \<Rightarrow> Inr (remdups selected))"





text \<open>
  \<^verbatim>\<open>handle_export\<close>: the group key is the facility's columns (with the year in front in the
  all-years mode), the measure is \<^verbatim>\<open>COALESCE(SUM(...), 0)\<close>. The sector type and the gas name
  are tested in the ON clause of the left join, so a facility with no matching sector row
  stays in the result with a NULL sum.
\<close>

type_synonym facility_columns =
  "string option \<times> string option \<times> string option \<times> string option \<times> string option
   \<times> string option \<times> string option \<times> string option \<times> string option \<times> string option"

definition export_columns :: "facility_row \<Rightarrow> facility_columns" where
  "export_columns f =
     (f_facility_id f, f_facility_name f, f_city f, f_state f, f_county f, f_zip f,
      f_address1 f, f_latitude f, f_longitude f, f_parent_company f)"

definition export_on :: "string \<Rightarrow> facility_row \<Rightarrow> sector_row \<Rightarrow> bool" where
  \<comment> \<open>the ON clause of the export's left join\<close>
  "export_on data_source f s \<longleftrightarrow>
     sql_eq (f_facility_id f) (s_facility_id s) \<and> sql_eq (f_year f) (s_year s)
     \<and> sql_eq (s_sector_type s) (Some data_source)
     \<and> sql_ne (s_gas_name s) (Some Biogenic)"

definition export_join :: "db \<Rightarrow> string \<Rightarrow> (facility_row \<times> sector_row option) list" where
  "export_join t data_source = left_join (export_on data_source) (facilities t) (sector t)"

definition export_sum :: "(facility_row \<times> sector_row option) list \<Rightarrow> real" where
  \<comment> \<open>\<^verbatim>\<open>COALESCE(SUM(CAST(s.co2e_emission AS DOUBLE)), 0)\<close>\<close>
  "export_sum g =
     coalesce (sql_sum (map (\<lambda>(f, s). case s of None \<Rightarrow> None | Some r \<Rightarrow> s_co2e_emission r) g)) 0"

definition year_total_order ::
  "(string option \<times> 'c) \<times> ('m :: linorder) \<Rightarrow> (string option \<times> 'c) \<times> 'm \<Rightarrow> bool" where
  \<comment> \<open>\<^verbatim>\<open>ORDER BY f.year DESC, total_emissions DESC\<close>: may the first row stand before the second\<close>
  "year_total_order x y \<longleftrightarrow>
     (if fst (fst x) = fst (fst y) then snd y \<le> snd x
      else desc_nulls_last (fst (fst x)) (fst (fst y)))"

definition export_all_years_query ::
  "db \<Rightarrow> string \<Rightarrow> string \<Rightarrow> ((string option \<times> facility_columns) \<times> real) list" where
  "export_all_years_query t st data_source =
     (let rows = filter (\<lambda>(f, s). facility_state_filter st f) (export_join t data_source);
          selected = map (\<lambda>(k, g). (k, export_sum g))
                       (group_by (\<lambda>(f, s). (f_year f, export_columns f)) rows);
          having = filter (\<lambda>(k, total_emissions). 0 < total_emissions) selected
      in take 25000 (order_by year_total_order having))"

definition export_single_year_query ::
  "db \<Rightarrow> string \<Rightarrow> string \<Rightarrow> string \<Rightarrow> (facility_columns \<times> real) list" where
  "export_single_year_query t reporting_year st data_source =
     (let rows = filter (\<lambda>(f, s). sql_eq (f_year f) (Some reporting_year)
                                  \<and> facility_state_filter st f) (export_join t data_source);
          selected = map (\<lambda>(k, g). (k, export_sum g))
                       (group_by (\<lambda>(f, s). export_columns f) rows)
      in order_by (\<lambda>x y. snd y \<le> snd x) selected)"

text \<open>\<^verbatim>\<open>handle_facility_hover\<close>: the facility of the year, else of its latest year; the sums per gas.\<close>

definition hover_facility_query :: "db \<Rightarrow> string \<Rightarrow> string \<Rightarrow> facility_row option" where
  "hover_facility_query t facility_id yr =
     (case filter (\<lambda>f. sql_eq (f_facility_id f) (Some facility_id) \<and> sql_eq (f_year f) (Some yr))
             (facilities t) of
        [] \<Rightarrow> None
      | f # _ \<Rightarrow> Some f)"



section \<open>Notions used in the statements\<close>



definition total_on_all :: "('a \<Rightarrow> 'a \<Rightarrow> bool) \<Rightarrow> bool" where
  "total_on_all le \<longleftrightarrow> (\<forall>x y. le x y \<or> le y x)"

section \<open>A small snapshot\<close>

text \<open>Concrete tables on which the theorems are instantiated.\<close>

definition fac :: "string \<Rightarrow> string \<Rightarrow> string \<Rightarrow> string \<Rightarrow> facility_row" where
  "fac i y n s =
     \<lparr>f_facility_id = Some i, f_year = Some y, f_facility_name = Some n,
      f_address1 = Some ''1 Main St'', f_address2 = None, f_city = Some ''Springfield'',
      f_state = Some s, f_county = None, f_zip = Some ''00001'',
      f_latitude = Some ''30.5'', f_longitude = Some ''-97.25'', f_parent_company = None\<rparr>"

definition sec :: "string \<Rightarrow> string \<Rightarrow> string \<Rightarrow> string \<Rightarrow> real \<Rightarrow> sector_row" where
  "sec i y n g v =
     \<lparr>s_facility_id = Some i, s_year = Some y, s_sector_name = Some n,
      s_sector_type = Some ''E'', s_gas_name = Some g, s_co2e_emission = Some v\<rparr>"

definition db0 :: db where
  "db0 =
     \<lparr>facilities = [fac ''1001'' ''2023'' ''Alpha'' ''TX'', fac ''1001'' ''2022'' ''Alpha'' ''TX'',
                    fac ''1002'' ''2023'' ''Beta'' ''CA'', fac ''1003'' ''2022'' ''Gamma'' ''LA''],
      sector = [sec ''1001'' ''2023'' ''Power Plants'' ''Carbon Dioxide'' 2500000,
                sec ''1001'' ''2023'' ''Power Plants'' ''Biogenic CO2'' 700000,
                sec ''1001'' ''2022'' ''Power Plants'' ''Carbon Dioxide'' 1500000,
                sec ''1003'' ''2022'' ''Waste'' ''Methane'' 400000],
      dim_sector = [\<lparr>d_sector_name = Some ''Power Plants'', d_sector_id = Some 1\<rparr>,
                    \<lparr>d_sector_name = Some ''Waste'', d_sector_id = Some 2\<rparr>],
      fac_year_agg = [\<lparr>a_pgm_sys_id = Some ''1001'', a_year = Some ''2023'',
                        a_total_emission = Some 3200000\<rparr>]\<rparr>"


section \<open>Acquiring the datasets of a handler\<close>

text \<open>
  Each handler calls \<^verbatim>\<open>get_local_parquet\<close> for its tables in turn, inside its
  \<^verbatim>\<open>try\<close> block; the first call that raises ends the handler with a 500 response that
  carries the exception's text.
\<close>

fun acquire :: "config \<Rightarrow> s3_client \<Rightarrow> string list \<Rightarrow> cache_state \<Rightarrow> (string + unit) \<times> cache_state" where
  "acquire cfg s3 [] cs = (Inr (), cs)"
| "acquire cfg s3 (n # ns) cs =
     (case get_local_parquet cfg s3 n cs of
        (Inl e, cs') \<Rightarrow> (Inl e, cs')
      | (Inr _, cs') \<Rightarrow> acquire cfg s3 ns cs')"

definition error_500 :: "string \<Rightarrow> 'a response" where
  \<comment> \<open>\<^verbatim>\<open>cors_response(500, {'messages': [{'text': str(e), 'type': 500}]})\<close>\<close>
  "error_500 e = cors_response 500 None [Message e 500]"

section \<open>Export\<close>

definition lower :: "string \<Rightarrow> string" where
  \<comment> \<open>\<^verbatim>\<open>str.lower\<close> on the ASCII letters\<close>
  "lower s = map (\<lambda>c. if CHR ''A'' \<le> c \<and> c \<le> CHR ''Z'' then char_of (of_char c + (32::nat)) else c) s"

record export_params =
  allReportingYears :: "string option"
  listExport :: "string option"

datatype csv_value = CsvText "string option" | CsvInt int

record csv_file =
  csv_filename :: string
  csv_header :: "string list"
  csv_rows :: "csv_value list list"

datatype export_response = CsvDownload csv_file | ExportFailed "unit response"

definition round_or_zero :: "real \<Rightarrow> int" where
  \<comment> \<open>\<^verbatim>\<open>round(float(row[11])) if row[11] else 0\<close>\<close>
  "round_or_zero v = (if v = 0 then 0 else py_round v)"

definition facility_cells :: "facility_columns \<Rightarrow> csv_value list" where
  "facility_cells k =
     (case k of (i, n, city, s, county, z, addr, lat, lon, parent) \<Rightarrow>
        map CsvText [i, n, city, s, county, z, addr, lat, lon, parent])"

definition all_years_row :: "(string option \<times> facility_columns) \<times> real \<Rightarrow> csv_value list" where
  "all_years_row r = CsvText (fst (fst r)) # facility_cells (snd (fst r)) @ [CsvInt (round_or_zero (snd r))]"

definition single_year_row :: "facility_columns \<times> real \<Rightarrow> csv_value list" where
  "single_year_row r = facility_cells (fst r) @ [CsvInt (round_or_zero (snd r))]"

definition facility_header :: "string list" where
  "facility_header =
     [''Facility ID'', ''Facility Name'', ''City'', ''State'', ''County'', ''ZIP'', ''Address'',
      ''Latitude'', ''Longitude'', ''Parent Company'', ''Total Emissions (Metric Tons CO2e)'']"

definition handle_export ::
  "config \<Rightarrow> s3_client \<Rightarrow> db \<Rightarrow> body \<Rightarrow> export_params \<Rightarrow> cache_state
   \<Rightarrow> export_response \<times> cache_state" where
  "handle_export cfg s3 t b q cs =
     (let reporting_year = get_or (reportingYear b) ''2023'';
          st = get_or (state b) ''US'';
          data_source = get_or (dataSource b) ''E'';
          all_years = (lower (get_or (allReportingYears q) ''false'') = ''true'')
      in case acquire cfg s3 [''RLPS_GHG_EMITTER_FACILITIES'', ''RLPS_GHG_EMITTER_SECTOR''] cs of
           (Inl e, cs') \<Rightarrow> (ExportFailed (error_500 e), cs')
         | (Inr _, cs') \<Rightarrow>
             if all_years
             then (CsvDownload
                     \<lparr>csv_filename = ''ghg_emissions_all_years.csv'',
                      csv_header = ''Year'' # facility_header,
                      csv_rows = map all_years_row (export_all_years_query t st data_source)\<rparr>,
                   cs')
             else (CsvDownload
                     \<lparr>csv_filename = ''ghg_emissions_'' @ reporting_year @ ''.csv'',
                      csv_header = facility_header,
                      csv_rows = map single_year_row
                                   (export_single_year_query t reporting_year st data_source)\<rparr>,
                   cs'))"

definition body0 :: body where
  "body0 = \<lparr>reportingYear = Some ''2023'', state = None, dataSource = None, sector1 = None,
            pageNumber = None\<rparr>"

definition all_years_params :: export_params where
  "all_years_params = \<lparr>allReportingYears = Some ''True'', listExport = None\<rparr>"

definition single_year_params :: export_params where
  "single_year_params = \<lparr>allReportingYears = None, listExport = None\<rparr>"

section \<open>Listing facilities\<close>















section \<open>Facility hover\<close>








section \<open>The compiled query as a plan\<close>

text \<open>
  The handlers build their SQL text by interpolation. Its FROM, JOIN and WHERE clauses are
  written here as a value, clause by clause in the order of the text, with every
  interpolated value as a literal. \<open>state_clause\<close> is the pair of the variables
  \<^verbatim>\<open>state_join\<close> and \<^verbatim>\<open>state_filter\<close> of the handlers over the sector table;
  \<open>facility_state_clause\<close> is the \<^verbatim>\<open>query += " AND f.state = ..."\<close> of the handlers whose
  FROM table is the facility table.
\<close>

datatype table = RLPS_GHG_EMITTER_FACILITIES | RLPS_GHG_EMITTER_SECTOR | PUB_DIM_SECTOR
  | RLPS_FAC_YEAR_AGG
























section \<open>Sector totals\<close>





section \<open>Properties of the download handler\<close>

lemma handle_data_download_invalid:
  "\<not> endswith fname ''.csv'' \<or> str_contains ''/'' fname \<or> str_contains ''..'' fname \<Longrightarrow>
   handle_data_download cfg s3 fname =
     (Response 400 None [Message ''Invalid filename'' 400], [])"
  by (simp add: handle_data_download_def cors_response_def)

text \<open>
  C7: a filename that does not end in \<^verbatim>\<open>.csv\<close>, or that contains the path separator
  \<^verbatim>\<open>/\<close> or the sequence \<^verbatim>\<open>..\<close>, is answered with status 400 and the single message
  of type 400, and the trace of remote calls is empty: neither \<^verbatim>\<open>head_object\<close> nor
  \<^verbatim>\<open>generate_presigned_url\<close> was called. The filename \<^verbatim>\<open>../secret.csv\<close> is one of them.
\<close>

theorem download_rejects_before_lookup:
  "(\<not> endswith fname ''.csv'' \<or> str_contains ''/'' fname \<or> str_contains ''..'' fname \<longrightarrow>
      statusCode (fst (handle_data_download cfg s3 fname)) = 400
      \<and> result (fst (handle_data_download cfg s3 fname)) = None
      \<and> messages (fst (handle_data_download cfg s3 fname)) = [Message ''Invalid filename'' 400]
      \<and> map msg_type (messages (fst (handle_data_download cfg s3 fname))) = [400]
      \<and> snd (handle_data_download cfg s3 fname) = [])
   \<and> handle_data_download cfg s3 ''../secret.csv'' =
       (Response 400 None [Message ''Invalid filename'' 400], [])"
proof -
  have bad: "str_contains ''..'' ''../secret.csv''"
    unfolding str_contains_def by code_simp
  show ?thesis
    using handle_data_download_invalid [of "''../secret.csv''" cfg s3] bad
    by (auto simp: handle_data_download_invalid)
qed

theorem download_rejects_before_lookup_witness:
  "str_contains ''/'' ''a/b.csv''
   \<and> statusCode (fst (handle_data_download \<lparr>S3_BUCKET = ''b'', S3_PREFIX = ''p''\<rparr>
        \<lparr>download_file = (\<lambda>_ _ _. Inr ()), head_object = (\<lambda>_ _. True),
         generate_presigned_url = (\<lambda>_ _ _. Inr ''u'')\<rparr> ''a/b.csv'')) = 400
   \<and> snd (handle_data_download \<lparr>S3_BUCKET = ''b'', S3_PREFIX = ''p''\<rparr>
        \<lparr>download_file = (\<lambda>_ _ _. Inr ()), head_object = (\<lambda>_ _. True),
         generate_presigned_url = (\<lambda>_ _ _. Inr ''u'')\<rparr> ''a/b.csv'') = []"
proof -
  have bad: "str_contains ''/'' ''a/b.csv''"
    unfolding str_contains_def by code_simp
  show ?thesis
    using bad download_rejects_before_lookup [of "''a/b.csv''"
        "\<lparr>S3_BUCKET = ''b'', S3_PREFIX = ''p''\<rparr>"
        "\<lparr>download_file = (\<lambda>_ _ _. Inr ()), head_object = (\<lambda>_ _. True),
          generate_presigned_url = (\<lambda>_ _ _. Inr ''u'')\<rparr>"]
    by blast
qed

section \<open>Properties of the snapshot cache\<close>

lemma get_local_parquet_keeps:
  "file_cache st n = Some p \<Longrightarrow> file_cache (snd (get_local_parquet cfg s3 m st)) n = Some p"
  by (auto simp: get_local_parquet_def Let_def split: option.splits sum.splits)

lemma get_local_parquet_success_recorded:
  "get_local_parquet cfg s3 n st = (Inr p, st') \<Longrightarrow> file_cache st' n = Some p"
  by (auto simp: get_local_parquet_def Let_def split: option.splits sum.splits if_splits)

lemma later_calls_keep:
  "file_cache st n = Some p \<Longrightarrow> file_cache (later_calls cfg calls st) n = Some p"
  unfolding later_calls_def
proof (induction calls arbitrary: st)
  case Nil
  then show ?case by simp
next
  case (Cons c calls)
  obtain s3 m where c: "c = (s3, m)" by (cases c)
  from Cons.prems have "file_cache (snd (get_local_parquet cfg s3 m st)) n = Some p"
    by (rule get_local_parquet_keeps)
  then show ?case using Cons.IH c by simp
qed

lemma get_local_parquet_failure:
  assumes "get_local_parquet cfg s3 n st = (Inl e, st')"
  shows "file_cache st' = file_cache st \<and> file_cache st' n = None
         \<and> (''/tmp/ghg.'' @ n @ ''.parquet'') \<notin> files st'"
  using assms
  by (auto simp: get_local_parquet_def Let_def split: option.splits sum.splits if_splits)

lemma get_local_parquet_miss:
  assumes "file_cache st n = None" "(''/tmp/ghg.'' @ n @ ''.parquet'') \<notin> files st"
  shows "s3_calls (snd (get_local_parquet cfg s3 n st)) = s3_calls st @
              [DownloadFile (S3_BUCKET cfg) (S3_PREFIX cfg @ ''/ghg.'' @ n @ ''.parquet'')
                 (''/tmp/ghg.'' @ n @ ''.parquet'')]"
  using assms
  by (auto simp: get_local_parquet_def Let_def split: option.splits sum.splits if_splits)

lemma get_local_parquet_only_on_success:
  "file_cache (snd (get_local_parquet cfg s3 n st)) \<noteq> file_cache st \<Longrightarrow>
   fst (get_local_parquet cfg s3 n st) = Inr (''/tmp/ghg.'' @ n @ ''.parquet'')"
  by (auto simp: get_local_parquet_def Let_def split: option.splits sum.splits if_splits)

text \<open>
  C5: the mapping from table name to local path is recorded only by a call that succeeds.
  Once a call for a name has returned a path, every later call for that name, after any
  other calls and whatever the remote store does by then, returns the same path and leaves
  the state as it is, the trace of remote calls included. A call whose download fails
  returns the error, leaves the dictionary unchanged with no entry for the name, and the
  next call for the name issues the download again.
\<close>

theorem get_local_parquet_records_on_success_only:
  "(get_local_parquet cfg s3 n st = (Inr p, st') \<longrightarrow>
      (\<forall>calls s3'. get_local_parquet cfg s3' n (later_calls cfg calls st')
                     = (Inr p, later_calls cfg calls st')))
   \<and> (get_local_parquet cfg s3 n st = (Inl e, st') \<longrightarrow>
        file_cache st' = file_cache st \<and> file_cache st' n = None
        \<and> (\<forall>s3'. s3_calls (snd (get_local_parquet cfg s3' n st')) = s3_calls st' @
              [DownloadFile (S3_BUCKET cfg) (S3_PREFIX cfg @ ''/ghg.'' @ n @ ''.parquet'')
                 (''/tmp/ghg.'' @ n @ ''.parquet'')]))
   \<and> (file_cache (snd (get_local_parquet cfg s3 n st)) \<noteq> file_cache st \<longrightarrow>
        (\<exists>q. fst (get_local_parquet cfg s3 n st) = Inr q))"
proof -
  have hit: "get_local_parquet cfg s3' n (later_calls cfg calls st')
               = (Inr p, later_calls cfg calls st')"
    if "get_local_parquet cfg s3 n st = (Inr p, st')" for calls s3'
  proof -
    from that have "file_cache st' n = Some p"
      by (rule get_local_parquet_success_recorded)
    then have "file_cache (later_calls cfg calls st') n = Some p"
      by (rule later_calls_keep)
    then show ?thesis
      by (simp add: get_local_parquet_def)
  qed
  have miss: "file_cache st' = file_cache st \<and> file_cache st' n = None
        \<and> (\<forall>s3'. s3_calls (snd (get_local_parquet cfg s3' n st')) = s3_calls st' @
              [DownloadFile (S3_BUCKET cfg) (S3_PREFIX cfg @ ''/ghg.'' @ n @ ''.parquet'')
                 (''/tmp/ghg.'' @ n @ ''.parquet'')])"
    if f: "get_local_parquet cfg s3 n st = (Inl e, st')"
  proof -
    note k = get_local_parquet_failure [OF f]
    from k have a: "file_cache st' n = None"
      and b: "(''/tmp/ghg.'' @ n @ ''.parquet'') \<notin> files st'"
      and c: "file_cache st' = file_cache st" by blast+
    from get_local_parquet_miss [OF a b, of cfg] a c show ?thesis
      by blast
  qed
  have only: "\<exists>q. fst (get_local_parquet cfg s3 n st) = Inr q"
    if "file_cache (snd (get_local_parquet cfg s3 n st)) \<noteq> file_cache st"
    using that by (blast dest: get_local_parquet_only_on_success)
  show ?thesis
    using hit miss only by blast
qed

theorem get_local_parquet_records_on_success_only_witness:
  "fst (get_local_parquet cfg0 s3_up ''T'' cold) = Inr ''/tmp/ghg.T.parquet''
   \<and> fst (get_local_parquet cfg0 s3_down ''T'' (snd (get_local_parquet cfg0 s3_up ''T'' cold)))
       = Inr ''/tmp/ghg.T.parquet''
   \<and> s3_calls (snd (get_local_parquet cfg0 s3_down ''T''
         (snd (get_local_parquet cfg0 s3_up ''T'' cold))))
       = s3_calls (snd (get_local_parquet cfg0 s3_up ''T'' cold))
   \<and> fst (get_local_parquet cfg0 s3_down ''T'' cold)
       = Inl ''Failed to download epa_ghg_tables_parquet/ghg.T.parquet: timeout''
   \<and> file_cache (snd (get_local_parquet cfg0 s3_down ''T'' cold)) ''T'' = None
   \<and> file_cache (snd (get_local_parquet cfg0 s3_up ''T'' cold))
       \<noteq> file_cache cold
   \<and> length (s3_calls (snd (get_local_parquet cfg0 s3_up ''T''
         (snd (get_local_parquet cfg0 s3_down ''T'' cold))))) = 2"
proof -
  obtain st1 where ok1:
    "get_local_parquet cfg0 s3_up ''T'' cold = (Inr ''/tmp/ghg.T.parquet'', st1)"
    and fc1: "file_cache st1 ''T'' = Some ''/tmp/ghg.T.parquet''"
    by (simp add: get_local_parquet_def cfg0_def s3_up_def cold_def Let_def)
  obtain st2 where bad1: "get_local_parquet cfg0 s3_down ''T'' cold =
      (Inl ''Failed to download epa_ghg_tables_parquet/ghg.T.parquet: timeout'', st2)"
    and st2: "length (s3_calls st2) = 1"
    by (simp add: get_local_parquet_def cfg0_def s3_down_def cold_def Let_def)
  note main = get_local_parquet_records_on_success_only
  from main [of cfg0 s3_up "''T''" cold "''/tmp/ghg.T.parquet''" st1] ok1
  have a: "get_local_parquet cfg0 s3_down ''T'' (later_calls cfg0 [] st1)
             = (Inr ''/tmp/ghg.T.parquet'', later_calls cfg0 [] st1)"
    by blast
  from main [where cfg = cfg0 and ?s3.0 = s3_down and n = "''T''" and st = cold
      and e = "''Failed to download epa_ghg_tables_parquet/ghg.T.parquet: timeout''"
      and st' = st2] bad1
  have b: "file_cache st2 ''T'' = None"
    and c: "s3_calls (snd (get_local_parquet cfg0 s3_up ''T'' st2)) = s3_calls st2 @
              [DownloadFile (S3_BUCKET cfg0) (S3_PREFIX cfg0 @ ''/ghg.'' @ ''T'' @ ''.parquet'')
                 (''/tmp/ghg.'' @ ''T'' @ ''.parquet'')]"
    by blast+
  have d: "file_cache st1 \<noteq> file_cache cold"
  proof
    assume "file_cache st1 = file_cache cold"
    then have "file_cache st1 ''T'' = file_cache cold ''T''" by simp
    with fc1 show False by (simp add: cold_def)
  qed
  show ?thesis using a b c d ok1 bad1 st2 by (simp add: later_calls_def)
qed

section \<open>Properties of the unit conversion\<close>

lemma py_round_bounds: "\<lfloor>x\<rfloor> \<le> py_round x \<and> py_round x \<le> \<lfloor>x\<rfloor> + 1"
  by (simp add: py_round_def Let_def)

lemma py_round_mono:
  assumes "a \<le> b"
  shows "py_round a \<le> py_round b"
proof (cases "\<lfloor>a\<rfloor> = \<lfloor>b\<rfloor>")
  case True
  from assms True have "a - of_int \<lfloor>a\<rfloor> \<le> b - of_int \<lfloor>b\<rfloor>" by simp
  with True show ?thesis by (auto simp: py_round_def Let_def)
next
  case False
  from assms have "\<lfloor>a\<rfloor> \<le> \<lfloor>b\<rfloor>" by (rule floor_mono)
  with False have "\<lfloor>a\<rfloor> + 1 \<le> \<lfloor>b\<rfloor>" by simp
  with py_round_bounds[of a] py_round_bounds[of b] show ?thesis by linarith
qed

lemma to_mmt_mono: "a \<le> b \<Longrightarrow> to_mmt a \<le> to_mmt b"
  unfolding to_mmt_def MMT_DIVISOR_def
  by (rule py_round_mono) (simp add: divide_right_mono)

text \<open>
  C8: the conversion from metric tons to MMT maps 0 to 0 and is monotonic: a larger input
  never gives a smaller result. The same holds with the handlers' guard for a falsy cell.
\<close>

theorem to_mmt_zero_and_monotonic:
  "to_mmt 0 = 0 \<and> (\<forall>a b. b < a \<longrightarrow> to_mmt b \<le> to_mmt a)
   \<and> mmt_or_zero (Some 0) = 0"
  by (auto simp: to_mmt_mono mmt_or_zero_def)
    (simp add: to_mmt_def py_round_def MMT_DIVISOR_def)

theorem to_mmt_zero_and_monotonic_witness:
  "(500000 :: real) < 1500000 \<and> to_mmt 500000 = 0 \<and> to_mmt 1500000 = 2
   \<and> to_mmt 500000 \<le> to_mmt 1500000"
proof -
  have "to_mmt 500000 \<le> to_mmt 1500000"
    using to_mmt_zero_and_monotonic by simp
  then show ?thesis
    by (simp add: to_mmt_def py_round_def MMT_DIVISOR_def)
qed

section \<open>Properties of the relational operators\<close>

subsection \<open>Sorting\<close>

lemma set_insort_by [simp]: "set (insort_by le x xs) = insert x (set xs)"
  by (induction xs) auto

lemma length_insort_by [simp]: "length (insort_by le x xs) = Suc (length xs)"
  by (induction xs) auto

lemma set_order_by [simp]: "set (order_by le xs) = set xs"
  unfolding order_by_def by (induction xs) auto


lemma sorted_insort_by:
  assumes "total_on_all le" "transp le" "sorted_wrt le xs"
  shows "sorted_wrt le (insort_by le x xs)"
  using assms(3)
proof (induction xs)
  case Nil
  then show ?case by simp
next
  case (Cons y ys)
  show ?case
  proof (cases "le x y")
    case True
    with Cons.prems assms(2) show ?thesis
      by (auto dest: transpD)
  next
    case False
    with assms(1) have "le y x" by (auto simp: total_on_all_def)
    with False Cons show ?thesis by auto
  qed
qed

lemma sorted_order_by:
  assumes "total_on_all le" "transp le"
  shows "sorted_wrt le (order_by le xs)"
  unfolding order_by_def
  by (induction xs) (auto intro: sorted_insort_by [OF assms])






subsection \<open>Grouping\<close>


section \<open>Biogenic CO2 in the aggregations\<close>

























section \<open>The all-years export\<close>

lemma year_total_order_total: "total_on_all (year_total_order :: (string option \<times> 'c) \<times> ('m::linorder) \<Rightarrow> _)"
  by (auto simp: total_on_all_def year_total_order_def desc_nulls_last_def split: option.splits)

lemma year_total_order_trans: "transp (year_total_order :: (string option \<times> 'c) \<times> ('m::linorder) \<Rightarrow> _)"
proof (rule transpI)
  fix x y z :: "(string option \<times> 'c) \<times> 'm"
  assume "year_total_order x y" "year_total_order y z"
  then show "year_total_order x z"
    by (cases "fst (fst x)"; cases "fst (fst y)"; cases "fst (fst z)")
      (auto simp: year_total_order_def desc_nulls_last_def split: if_splits)
qed

lemma sorted_wrt_take: "sorted_wrt le xs \<Longrightarrow> sorted_wrt le (take n xs)"
proof (induction xs arbitrary: n)
  case Nil
  then show ?case by simp
next
  case (Cons x xs)
  then show ?case by (cases n) (auto dest: in_set_takeD)
qed

lemma py_round_zero: "py_round 0 = 0"
  by (simp add: py_round_def)

lemma round_or_zero_eq: "round_or_zero v = py_round v"
  by (simp add: round_or_zero_def py_round_zero)

lemma export_all_years_length: "length (export_all_years_query t st ds) \<le> 25000"
  by (simp add: export_all_years_query_def Let_def)

lemma export_all_years_sorted: "sorted_wrt year_total_order (export_all_years_query t st ds)"
  unfolding export_all_years_query_def Let_def
  by (intro sorted_wrt_take sorted_order_by year_total_order_total year_total_order_trans)

lemma year_total_order_rounded:
  "year_total_order x y \<Longrightarrow>
   year_total_order (fst x, round_or_zero (snd x)) (fst y, round_or_zero (snd y))"
  by (auto simp: year_total_order_def round_or_zero_eq intro: py_round_mono split: if_splits)

lemma export_all_years_sorted_rounded:
  "sorted_wrt year_total_order
     (map (\<lambda>r. (fst r, round_or_zero (snd r))) (export_all_years_query t st ds))"
  using export_all_years_sorted [of t st ds]
  by (simp add: sorted_wrt_map) (erule sorted_wrt_mono_rel [rotated], rule year_total_order_rounded)

lemma get_local_parquet_up: "\<exists>p. fst (get_local_parquet cfg s3_up n cs) = Inr p"
  by (simp add: get_local_parquet_def s3_up_def Let_def split: option.splits)

lemma acquire_up: "fst (acquire cfg s3_up ns cs) = Inr ()"
proof (induction ns arbitrary: cs)
  case Nil
  then show ?case by simp
next
  case (Cons n ns)
  obtain r cs' where g: "get_local_parquet cfg s3_up n cs = (r, cs')"
    by (cases "get_local_parquet cfg s3_up n cs")
  with get_local_parquet_up [of cfg n cs] obtain p where "r = Inr p" by auto
  with g Cons show ?case by simp
qed

text \<open>
  C4: an export with \<^verbatim>\<open>allReportingYears=true\<close> either fails while acquiring its datasets, and
  then carries no rows, or returns the CSV rows of the all-years query: at most 25000 of
  them, whatever the body and the other parameters say, ordered by year descending (NULL
  last) and, within a year, by the summed emissions descending, before and after the
  rounding of the emissions column.
\<close>

theorem export_all_years_capped_and_sorted:
  assumes "lower (get_or (allReportingYears q) ''false'') = ''true''"
  shows "(\<exists>e. fst (acquire cfg s3 [''RLPS_GHG_EMITTER_FACILITIES'', ''RLPS_GHG_EMITTER_SECTOR''] cs)
                = Inl e
              \<and> fst (handle_export cfg s3 t b q cs) = ExportFailed (error_500 e))
         \<or> (\<exists>f. fst (acquire cfg s3 [''RLPS_GHG_EMITTER_FACILITIES'', ''RLPS_GHG_EMITTER_SECTOR''] cs)
                = Inr ()
              \<and> fst (handle_export cfg s3 t b q cs) = CsvDownload f
              \<and> csv_rows f = map all_years_row
                   (export_all_years_query t (get_or (state b) ''US'') (get_or (dataSource b) ''E''))
              \<and> length (csv_rows f) \<le> 25000
              \<and> sorted_wrt year_total_order
                   (export_all_years_query t (get_or (state b) ''US'') (get_or (dataSource b) ''E''))
              \<and> sorted_wrt year_total_order
                   (map (\<lambda>r. (fst r, round_or_zero (snd r)))
                      (export_all_years_query t (get_or (state b) ''US'')
                         (get_or (dataSource b) ''E''))))"
proof (cases "acquire cfg s3 [''RLPS_GHG_EMITTER_FACILITIES'', ''RLPS_GHG_EMITTER_SECTOR''] cs")
  case (Pair r cs')
  show ?thesis
  proof (cases r)
    case (Inl e)
    with Pair show ?thesis
      by (simp add: handle_export_def Let_def)
  next
    case (Inr u)
    with Pair assms show ?thesis
      by (simp add: handle_export_def Let_def export_all_years_length
          export_all_years_sorted export_all_years_sorted_rounded)
  qed
qed

theorem export_all_years_capped_and_sorted_witness:
  "lower (get_or (allReportingYears all_years_params) ''false'') = ''true''
   \<and> (\<exists>f. fst (handle_export cfg0 s3_up db0 body0 all_years_params cold) = CsvDownload f
          \<and> length (csv_rows f) \<le> 25000
          \<and> csv_rows f = map all_years_row (export_all_years_query db0 ''US'' ''E''))"
proof -
  have h: "lower (get_or (allReportingYears all_years_params) ''false'') = ''true''"
    by code_simp
  have b: "get_or (state body0) ''US'' = ''US''" "get_or (dataSource body0) ''E'' = ''E''"
    by (simp_all add: body0_def get_or_def)
  have a: "fst (acquire cfg0 s3_up [''RLPS_GHG_EMITTER_FACILITIES'', ''RLPS_GHG_EMITTER_SECTOR''] cold)
             = Inr ()"
    by (rule acquire_up)
  from export_all_years_capped_and_sorted [OF h, of cfg0 s3_up cold db0 body0]
  show ?thesis
    using h a by (auto simp: b simp del: acquire.simps)
qed

section \<open>Zero totals in the export\<close>

lemma set_group_by:
  "(k, g) \<in> set (group_by key rows) \<longleftrightarrow> k \<in> key ` set rows \<and> g = filter (\<lambda>r. key r = k) rows"
  by (auto simp: group_by_def)

lemma left_join_unmatched:
  "l \<in> set ls \<Longrightarrow> filter (on l) rs = [] \<Longrightarrow> (l, None) \<in> set (left_join on ls rs)"
  by (auto simp: left_join_def)

lemma export_on_cong:
  "f_facility_id f' = f_facility_id f \<Longrightarrow> f_year f' = f_year f \<Longrightarrow>
   export_on ds f' = export_on ds f"
  by (auto simp: export_on_def fun_eq_iff)

lemma export_columns_id: "export_columns f' = export_columns f \<Longrightarrow> f_facility_id f' = f_facility_id f"
  by (simp add: export_columns_def)

lemma export_sum_unmatched:
  assumes "\<forall>(f', s) \<in> set g. s = None"
  shows "export_sum g = 0"
proof -
  have "non_null (map (\<lambda>(f, s). case s of None \<Rightarrow> None | Some r \<Rightarrow> s_co2e_emission r) g) = []"
    using assms by (induction g) (auto simp: non_null_def)
  then show ?thesis by (simp add: export_sum_def sql_sum_def coalesce_def)
qed

lemma export_join_unmatched_group:
  assumes nomatch: "filter (export_on ds f) (sector t) = []"
    and row: "(f', s) \<in> set (export_join t ds)"
    and same: "f_facility_id f' = f_facility_id f" "f_year f' = f_year f"
  shows "s = None"
proof (cases s)
  case None
  then show ?thesis .
next
  case (Some r)
  with row have "export_on ds f' r" and "r \<in> set (sector t)"
    by (auto simp: export_join_def left_join_def split: if_splits)
  with same have "r \<in> set (filter (export_on ds f) (sector t))"
    by (simp add: export_on_cong [OF same])
  with nomatch show ?thesis by simp
qed

lemma single_year_includes_zero:
  assumes f: "f \<in> set (facilities t)"
    and yr: "sql_eq (f_year f) (Some y)"
    and stf: "facility_state_filter st f"
    and nomatch: "filter (export_on ds f) (sector t) = []"
  shows "(export_columns f, 0) \<in> set (export_single_year_query t y st ds)"
proof -
  let ?W = "\<lambda>(f, s). sql_eq (f_year f) (Some y) \<and> facility_state_filter st f"
  let ?rows = "filter ?W (export_join t ds)"
  let ?key = "\<lambda>(f, s :: sector_row option). export_columns f"
  let ?g = "filter (\<lambda>r. ?key r = export_columns f) ?rows"
  have "(f, None) \<in> set (export_join t ds)"
    unfolding export_join_def using f nomatch by (rule left_join_unmatched)
  with yr stf have "(f, None) \<in> set ?rows" by simp
  then have "export_columns f \<in> ?key ` set ?rows" by force
  then have grp: "(export_columns f, ?g) \<in> set (group_by ?key ?rows)"
    by (simp add: set_group_by)
  have "\<forall>(f', s) \<in> set ?g. s = None"
  proof (clarify)
    fix f' s assume m: "(f', s) \<in> set ?g"
    then have k: "export_columns f' = export_columns f" and j: "(f', s) \<in> set (export_join t ds)"
      and y': "sql_eq (f_year f') (Some y)" by auto
    from y' yr have "f_year f' = f_year f"
      by (auto simp: sql_eq_def split: option.splits)
    with nomatch j export_columns_id [OF k] show "s = None"
      by (rule export_join_unmatched_group)
  qed
  then have "export_sum ?g = 0" by (rule export_sum_unmatched)
  with grp have "(export_columns f, 0) \<in> (\<lambda>(k, g). (k, export_sum g)) ` set (group_by ?key ?rows)"
    by force
  then show ?thesis
    by (simp add: export_single_year_query_def Let_def)
qed

lemma all_years_positive:
  "r \<in> set (export_all_years_query t st ds) \<Longrightarrow> 0 < snd r"
  by (auto simp: export_all_years_query_def Let_def dest!: in_set_takeD)

lemma all_years_excludes_zero:
  assumes nomatch: "filter (export_on ds f) (sector t) = []"
  shows "((f_year f, export_columns f), amount) \<notin> set (export_all_years_query t st ds)"
proof
  let ?W = "\<lambda>(f, s :: sector_row option). facility_state_filter st f"
  let ?rows = "filter ?W (export_join t ds)"
  let ?key = "\<lambda>(f, s :: sector_row option). (f_year f, export_columns f)"
  let ?g = "filter (\<lambda>r. ?key r = (f_year f, export_columns f)) ?rows"
  assume m: "((f_year f, export_columns f), amount) \<in> set (export_all_years_query t st ds)"
  then have pos: "0 < amount" by (auto dest: all_years_positive)
  from m have "((f_year f, export_columns f), amount)
                 \<in> (\<lambda>(k, g). (k, export_sum g)) ` set (group_by ?key ?rows)"
    by (auto simp: export_all_years_query_def Let_def dest!: in_set_takeD)
  then have eq: "amount = export_sum ?g"
    by (auto simp: set_group_by)
  have "\<forall>(f', s) \<in> set ?g. s = None"
  proof (clarify)
    fix f' s assume "(f', s) \<in> set ?g"
    then have k: "export_columns f' = export_columns f" and y: "f_year f' = f_year f"
      and j: "(f', s) \<in> set (export_join t ds)" by auto
    from nomatch j export_columns_id [OF k] y show "s = None"
      by (rule export_join_unmatched_group)
  qed
  then have "export_sum ?g = 0" by (rule export_sum_unmatched)
  with eq pos show False by simp
qed

lemma all_years_row_key: "all_years_row (k, v) = all_years_row (k', v') \<Longrightarrow> k = k'"
  by (cases k; cases k') (auto simp: all_years_row_def facility_cells_def)

lemma export_all_years_response:
  assumes "acquire cfg s3 [''RLPS_GHG_EMITTER_FACILITIES'', ''RLPS_GHG_EMITTER_SECTOR''] cs = (Inr u, cs')"
    and "lower (get_or (allReportingYears q) ''false'') = ''true''"
  shows "fst (handle_export cfg s3 t b q cs)
      = CsvDownload \<lparr>csv_filename = ''ghg_emissions_all_years.csv'',
                      csv_header = ''Year'' # facility_header,
                      csv_rows = map all_years_row
                        (export_all_years_query t (get_or (state b) ''US'') (get_or (dataSource b) ''E''))\<rparr>"
  using assms by (simp add: handle_export_def Let_def del: acquire.simps)

lemma export_single_year_response:
  assumes "acquire cfg s3 [''RLPS_GHG_EMITTER_FACILITIES'', ''RLPS_GHG_EMITTER_SECTOR''] cs = (Inr u, cs')"
    and "lower (get_or (allReportingYears q) ''false'') \<noteq> ''true''"
  shows "fst (handle_export cfg s3 t b q cs)
      = CsvDownload \<lparr>csv_filename = ''ghg_emissions_'' @ get_or (reportingYear b) ''2023'' @ ''.csv'',
                      csv_header = facility_header,
                      csv_rows = map single_year_row
                        (export_single_year_query t (get_or (reportingYear b) ''2023'')
                           (get_or (state b) ''US'') (get_or (dataSource b) ''E''))\<rparr>"
  using assms by (simp add: handle_export_def Let_def del: acquire.simps)

lemma all_years_csv_excludes_zero:
  assumes "filter (export_on ds f) (sector t) = []"
  shows "all_years_row ((f_year f, export_columns f), v)
           \<notin> set (map all_years_row (export_all_years_query t st ds))"
proof
  assume "all_years_row ((f_year f, export_columns f), v)
            \<in> set (map all_years_row (export_all_years_query t st ds))"
  then obtain r where r: "r \<in> set (export_all_years_query t st ds)"
    and eq: "all_years_row ((f_year f, export_columns f), v) = all_years_row r"
    by (auto simp: image_iff)
  obtain k w where kw: "r = (k, w)" by (cases r)
  from eq kw have "(f_year f, export_columns f) = k"
    by (simp add: all_years_row_key)
  with r kw all_years_excludes_zero [OF assms, of w st] show False by simp
qed

lemma left_join_keeps: "l \<in> set ls \<Longrightarrow> \<exists>r. (l, r) \<in> set (left_join on ls rs)"
proof (cases "filter (on l) rs")
  case Nil
  assume "l \<in> set ls"
  then have "(l, None) \<in> set (left_join on ls rs)" using Nil by (rule left_join_unmatched)
  then show ?thesis ..
next
  case (Cons r rest)
  assume l: "l \<in> set ls"
  from Cons have "r \<in> set (filter (on l) rs)" by simp
  then have "(l, Some r) \<in> set (if filter (on l) rs = [] then [(l, None)]
               else map (\<lambda>r. (l, Some r)) (filter (on l) rs))"
    using Cons by (simp del: set_filter)
  with l have "(l, Some r) \<in> set (left_join on ls rs)"
    unfolding left_join_def set_concat set_map by blast
  then show ?thesis ..
qed

lemma fst_set_group_by: "fst ` set (group_by key rows) = key ` set rows"
  by (simp add: group_by_def image_image)

lemma single_year_keys:
  "fst ` set (export_single_year_query t y st ds)
     = (\<lambda>(f, s). export_columns f)
         ` set (filter (\<lambda>(f, s). sql_eq (f_year f) (Some y) \<and> facility_state_filter st f)
                  (export_join t ds))"
proof -
  have "fst ` set (map (\<lambda>(k, g). (k, export_sum g)) gs) = fst ` set gs"
    for gs :: "(facility_columns \<times> (facility_row \<times> sector_row option) list) list"
    by (induction gs) auto
  then show ?thesis
    unfolding export_single_year_query_def Let_def set_order_by
    by (simp only: fst_set_group_by)
qed

lemma single_year_keeps_every_facility:
  assumes f: "f \<in> set (facilities t)"
    and yr: "sql_eq (f_year f) (Some y)"
    and stf: "facility_state_filter st f"
  shows "export_columns f \<in> fst ` set (export_single_year_query t y st ds)"
proof -
  obtain r where "(f, r) \<in> set (export_join t ds)"
    using left_join_keeps [OF f, of "export_on ds" "sector t"] by (auto simp: export_join_def)
  with yr stf have "(f, r) \<in> set (filter (\<lambda>(f, s). sql_eq (f_year f) (Some y)
            \<and> facility_state_filter st f) (export_join t ds))" by simp
  then show ?thesis
    unfolding single_year_keys by (rule rev_image_eqI) simp
qed

lemma single_year_row_zero: "last (single_year_row (k, 0)) = CsvInt 0"
  by (simp add: single_year_row_def round_or_zero_def)



text \<open>
  C10: once the two datasets are acquired, the all-years export returns only rows whose
  summed total is positive (the HAVING clause): a facility-year with no sector row that
  matches the join condition has total 0 and no CSV row, whatever its emissions cell would
  be. The single-year export has no HAVING clause: every facility of the year that passes
  the state filter has a row, and one without matching sector rows has the row with
  emissions 0.
\<close>

theorem export_zero_totals:
  assumes acq: "fst (acquire cfg s3 [''RLPS_GHG_EMITTER_FACILITIES'', ''RLPS_GHG_EMITTER_SECTOR''] cs)
                  = Inr ()"
    and y: "y = get_or (reportingYear b) ''2023''"
    and st: "st = get_or (state b) ''US''"
    and ds: "ds = get_or (dataSource b) ''E''"
  shows "(lower (get_or (allReportingYears q) ''false'') = ''true'' \<longrightarrow>
           (\<exists>file. fst (handle_export cfg s3 t b q cs) = CsvDownload file
              \<and> csv_rows file = map all_years_row (export_all_years_query t st ds)
              \<and> (\<forall>r \<in> set (export_all_years_query t st ds). 0 < snd r)
              \<and> (\<forall>f v. filter (export_on ds f) (sector t) = [] \<longrightarrow>
                    all_years_row ((f_year f, export_columns f), v) \<notin> set (csv_rows file))))
         \<and> (lower (get_or (allReportingYears q) ''false'') \<noteq> ''true'' \<longrightarrow>
           (\<exists>file. fst (handle_export cfg s3 t b q cs) = CsvDownload file
              \<and> csv_rows file = map single_year_row (export_single_year_query t y st ds)
              \<and> (\<forall>f \<in> set (facilities t).
                    sql_eq (f_year f) (Some y) \<and> facility_state_filter st f \<longrightarrow>
                    export_columns f \<in> fst ` set (export_single_year_query t y st ds))
              \<and> (\<forall>f \<in> set (facilities t).
                    sql_eq (f_year f) (Some y) \<and> facility_state_filter st f
                    \<and> filter (export_on ds f) (sector t) = [] \<longrightarrow>
                    (export_columns f, 0) \<in> set (export_single_year_query t y st ds)
                    \<and> single_year_row (export_columns f, 0) \<in> set (csv_rows file)
                    \<and> last (single_year_row (export_columns f, 0)) = CsvInt 0)))"
proof -
  obtain u cs' where a: "acquire cfg s3 [''RLPS_GHG_EMITTER_FACILITIES'', ''RLPS_GHG_EMITTER_SECTOR''] cs
                          = (Inr u, cs')"
    using acq by (cases "acquire cfg s3 [''RLPS_GHG_EMITTER_FACILITIES'', ''RLPS_GHG_EMITTER_SECTOR''] cs") auto
  let ?all = "\<lparr>csv_filename = ''ghg_emissions_all_years.csv'',
                      csv_header = ''Year'' # facility_header,
                      csv_rows = map all_years_row (export_all_years_query t st ds)\<rparr>"
  let ?single = "\<lparr>csv_filename = ''ghg_emissions_'' @ y @ ''.csv'',
                      csv_header = facility_header,
                      csv_rows = map single_year_row (export_single_year_query t y st ds)\<rparr>"
  have A: "fst (handle_export cfg s3 t b q cs) = CsvDownload ?all
              \<and> csv_rows ?all = map all_years_row (export_all_years_query t st ds)
              \<and> (\<forall>r \<in> set (export_all_years_query t st ds). 0 < snd r)
              \<and> (\<forall>f v. filter (export_on ds f) (sector t) = [] \<longrightarrow>
                    all_years_row ((f_year f, export_columns f), v) \<notin> set (csv_rows ?all))"
    if m: "lower (get_or (allReportingYears q) ''false'') = ''true''"
  proof (intro conjI ballI allI impI)
    show "fst (handle_export cfg s3 t b q cs) = CsvDownload ?all"
      unfolding st ds by (rule export_all_years_response [OF a m])
    show "csv_rows ?all = map all_years_row (export_all_years_query t st ds)" by simp
  next
    fix r assume "r \<in> set (export_all_years_query t st ds)"
    then show "0 < snd r" by (rule all_years_positive)
  next
    fix f v assume "filter (export_on ds f) (sector t) = []"
    then have "all_years_row ((f_year f, export_columns f), v)
           \<notin> set (map all_years_row (export_all_years_query t st ds))"
      by (rule all_years_csv_excludes_zero)
    then show "all_years_row ((f_year f, export_columns f), v) \<notin> set (csv_rows ?all)"
      by (simp del: set_map)
  qed
  have B: "fst (handle_export cfg s3 t b q cs) = CsvDownload ?single
              \<and> csv_rows ?single = map single_year_row (export_single_year_query t y st ds)
              \<and> (\<forall>f \<in> set (facilities t).
                    sql_eq (f_year f) (Some y) \<and> facility_state_filter st f \<longrightarrow>
                    export_columns f \<in> fst ` set (export_single_year_query t y st ds))
              \<and> (\<forall>f \<in> set (facilities t).
                    sql_eq (f_year f) (Some y) \<and> facility_state_filter st f
                    \<and> filter (export_on ds f) (sector t) = [] \<longrightarrow>
                    (export_columns f, 0) \<in> set (export_single_year_query t y st ds)
                    \<and> single_year_row (export_columns f, 0) \<in> set (csv_rows ?single)
                    \<and> last (single_year_row (export_columns f, 0)) = CsvInt 0)"
    if m: "lower (get_or (allReportingYears q) ''false'') \<noteq> ''true''"
  proof (intro conjI ballI impI)
    show "fst (handle_export cfg s3 t b q cs) = CsvDownload ?single"
      unfolding y st ds by (rule export_single_year_response [OF a m])
    show "csv_rows ?single = map single_year_row (export_single_year_query t y st ds)" by simp
  next
    fix f
    assume "f \<in> set (facilities t)"
      and "sql_eq (f_year f) (Some y) \<and> facility_state_filter st f"
    then show "export_columns f \<in> fst ` set (export_single_year_query t y st ds)"
      by (simp add: single_year_keeps_every_facility)
  next
    fix f
    assume f: "f \<in> set (facilities t)"
      and h: "sql_eq (f_year f) (Some y) \<and> facility_state_filter st f
                \<and> filter (export_on ds f) (sector t) = []"
    from f h show z: "(export_columns f, 0) \<in> set (export_single_year_query t y st ds)"
      by (simp add: single_year_includes_zero)
    then have "single_year_row (export_columns f, 0)
                 \<in> single_year_row ` set (export_single_year_query t y st ds)"
      by (rule imageI)
    then show "single_year_row (export_columns f, 0) \<in> set (csv_rows ?single)"
      by simp
    show "last (single_year_row (export_columns f, 0)) = CsvInt 0"
      by (rule single_year_row_zero)
  qed
  from A B show ?thesis by blast
qed

theorem export_zero_totals_witness:
  "fst (acquire cfg0 s3_up [''RLPS_GHG_EMITTER_FACILITIES'', ''RLPS_GHG_EMITTER_SECTOR''] cold) = Inr ()
   \<and> fac ''1002'' ''2023'' ''Beta'' ''CA'' \<in> set (facilities db0)
   \<and> filter (export_on ''E'' (fac ''1002'' ''2023'' ''Beta'' ''CA'')) (sector db0) = []
   \<and> (\<exists>file. fst (handle_export cfg0 s3_up db0 body0 single_year_params cold) = CsvDownload file
          \<and> single_year_row (export_columns (fac ''1002'' ''2023'' ''Beta'' ''CA''), 0)
               \<in> set (csv_rows file))
   \<and> (\<exists>file. fst (handle_export cfg0 s3_up db0 body0 all_years_params cold) = CsvDownload file
          \<and> all_years_row ((Some ''2023'', export_columns (fac ''1002'' ''2023'' ''Beta'' ''CA'')), 0)
               \<notin> set (csv_rows file))"
proof -
  let ?f = "fac ''1002'' ''2023'' ''Beta'' ''CA''"
  have a: "fst (acquire cfg0 s3_up [''RLPS_GHG_EMITTER_FACILITIES'', ''RLPS_GHG_EMITTER_SECTOR''] cold)
             = Inr ()"
    by (rule acquire_up)
  have b: "get_or (reportingYear body0) ''2023'' = ''2023''" "get_or (state body0) ''US'' = ''US''"
    "get_or (dataSource body0) ''E'' = ''E''"
    by (simp_all add: body0_def get_or_def)
  have m: "?f \<in> set (facilities db0)" by (simp add: db0_def)
  have n: "filter (export_on ''E'' ?f) (sector db0) = []" by code_simp
  have y: "sql_eq (f_year ?f) (Some ''2023'')" "f_year ?f = Some ''2023''"
    by (simp_all add: fac_def sql_eq_def)
  have s: "facility_state_filter ''US'' ?f"
    by (simp add: facility_state_filter_def state_filtering_def)
  have single: "lower (get_or (allReportingYears single_year_params) ''false'') \<noteq> ''true''"
    by code_simp
  have all: "lower (get_or (allReportingYears all_years_params) ''false'') = ''true''"
    by code_simp
  from export_zero_totals [OF a b [symmetric], of single_year_params db0] single m n y s
  have one: "\<exists>file. fst (handle_export cfg0 s3_up db0 body0 single_year_params cold) = CsvDownload file
          \<and> single_year_row (export_columns ?f, 0) \<in> set (csv_rows file)"
    by blast
  from export_zero_totals [OF a b [symmetric], of all_years_params db0] all n
  have "\<exists>file. fst (handle_export cfg0 s3_up db0 body0 all_years_params cold) = CsvDownload file
          \<and> all_years_row ((f_year ?f, export_columns ?f), 0) \<notin> set (csv_rows file)"
    by blast
  then have two: "\<exists>file. fst (handle_export cfg0 s3_up db0 body0 all_years_params cold) = CsvDownload file
          \<and> all_years_row ((Some ''2023'', export_columns ?f), 0) \<notin> set (csv_rows file)"
    by (simp only: y(2))
  from a m n one two show ?thesis by blast
qed

section \<open>Pagination of the facility list\<close>






section \<open>Facility hover: fallback and 404\<close>

lemma hover_facility_query_None:
  "hover_facility_query t fid yr = None \<longleftrightarrow>
   filter (\<lambda>f. sql_eq (f_facility_id f) (Some fid) \<and> sql_eq (f_year f) (Some yr)) (facilities t) = []"
  by (simp add: hover_facility_query_def split: list.splits)







section \<open>The state filter\<close>



lemma state_join_unfiltered:
  "\<not> state_filtering st \<Longrightarrow> state_join (t\<lparr>facilities := fs\<rparr>) st rows = state_join t st rows"
  by (simp add: state_join_def)





end
